theory Spec2Isabelle
  imports Main
begin

section \<open>JavaScript values\<close>

text \<open>
  A JavaScript string is a sequence of UTF-16 code units; \<open>length\<close> counts code units and
  \<open>===\<close> compares them one by one. The model keeps that: a string is the list of its code
  units, and \<open>js\<close> turns an ASCII literal into such a list. Letters of the source's
  Turkish messages that are not ASCII are written as their code units
  (305 = dotless i, 351 = s-cedilla, 287 = g-breve, 252 = u-umlaut, 246 = o-umlaut,
  231 = c-cedilla, 304 = capital dotted I).
\<close>

type_synonym js_string = "nat list"

definition js :: "string \<Rightarrow> js_string" where
  "js s = map of_char s"

text \<open>
  A value produced by \<open>response.json()\<close>. A number is kept as the string that
  \<open>Number::toString\<close> gives for it (1e21 as "1e+21", one half as "0.5"): the code only tests
  a number for truth and converts it to a string, and that string identifies the double,
  except that zero and minus zero both give "0", which neither operation tells apart. An
  object is the list of its own properties in order, each key occurring once.
\<close>

datatype json =
    JNull
  | JBool bool
  | JNum js_string
  | JStr js_string
  | JArr "json list"
  | JObj "(js_string \<times> json) list"

text \<open>ToBoolean on a parsed value; \<open>None\<close> stands for \<open>undefined\<close>.\<close>

fun truthy :: "json \<Rightarrow> bool" where
  "truthy JNull = False"
| "truthy (JBool b) = b"
| "truthy (JNum s) = (s \<noteq> js ''0'')"
| "truthy (JStr s) = (s \<noteq> [])"
| "truthy (JArr xs) = True"
| "truthy (JObj kvs) = True"

fun truthy_opt :: "json option \<Rightarrow> bool" where
  "truthy_opt None = False"
| "truthy_opt (Some v) = truthy v"

text \<open>The decimal digits of an HTTP status, as the template literal of line 65 writes it.\<close>

fun digit_char :: "nat \<Rightarrow> nat" where
  "digit_char d = 48 + d"

fun show_nat :: "nat \<Rightarrow> js_string" where
  "show_nat n = (if n < 10 then [digit_char n] else show_nat (n div 10) @ [digit_char (n mod 10)])"

declare show_nat.simps [simp del]

datatype js_error =
    TypeError js_string
  | OtherError js_string js_string

fun error_text :: "js_error \<Rightarrow> js_string" where
  "error_text (TypeError m) = m"
| "error_text (OtherError n m) = m"

fun is_TypeError :: "js_error \<Rightarrow> bool" where
  "is_TypeError (TypeError m) = True"
| "is_TypeError (OtherError n m) = False"

text \<open>
  ToString, which the \<open>Error\<close> constructor applies to its message argument. A string is
  itself. An array is its elements joined by commas, \<open>null\<close> as the empty string. An object
  without an own property \<open>toString\<close> is \<open>[object Object]\<close>, by the method it inherits. With
  such a property the conversion throws: the property's value is parsed data and cannot be
  called, \<open>valueOf\<close> is either parsed data as well or gives back the object, and
  OrdinaryToPrimitive ends in a TypeError, whose message \<open>tm\<close> is the engine's.
\<close>

fun js_ToString :: "js_string \<Rightarrow> json \<Rightarrow> js_error + js_string"
  and js_join :: "js_string \<Rightarrow> json list \<Rightarrow> js_error + js_string" where
  "js_ToString tm JNull = Inr (js ''null'')"
| "js_ToString tm (JBool b) = Inr (if b then js ''true'' else js ''false'')"
| "js_ToString tm (JNum s) = Inr s"
| "js_ToString tm (JStr s) = Inr s"
| "js_ToString tm (JArr xs) = js_join tm xs"
| "js_ToString tm (JObj kvs) =
     (if map_of kvs (js ''toString'') = None then Inr (js ''[object Object]'')
      else Inl (TypeError tm))"
| "js_join tm [] = Inr []"
| "js_join tm (x # xs) =
     (case (if x = JNull then Inr [] else js_ToString tm x) of
        Inl e \<Rightarrow> Inl e
      | Inr s \<Rightarrow>
          if xs = [] then Inr s
          else (case js_join tm xs of Inl e \<Rightarrow> Inl e | Inr r \<Rightarrow> Inr (s @ 44 # r)))"

text \<open>\<open>String.prototype.includes\<close>: does \<open>sub\<close> occur in \<open>s\<close> as a contiguous run.\<close>

fun js_includes :: "js_string \<Rightarrow> js_string \<Rightarrow> bool" where
  "js_includes [] sub = (sub = [])"
| "js_includes (c # cs) sub = (take (length sub) (c # cs) = sub \<or> js_includes cs sub)"


section \<open>The chat client (api.ts)\<close>

subsection \<open>Data\<close>

record ChatAttachment =
  name :: js_string
  mime :: js_string
  contentString :: js_string

datatype mode = Query | Chat

fun mode_string :: "mode \<Rightarrow> js_string" where
  "mode_string Query = js ''query''"
| "mode_string Chat = js ''chat''"

definition attachment_json :: "ChatAttachment \<Rightarrow> json" where
  "attachment_json a =
     JObj [(js ''name'', JStr (name a)), (js ''mime'', JStr (mime a)),
           (js ''contentString'', JStr (contentString a))]"

text \<open>
  The argument of \<open>fetch\<close>. The body is the value that \<open>JSON.stringify\<close> serialises; the
  model keeps the value, since the serialisation of such an object loses nothing.
\<close>

record request =
  url :: js_string
  http_method :: js_string
  headers :: "(js_string \<times> js_string) list"
  body :: json

text \<open>
  What the code reads of a \<open>Response\<close>: \<open>json_body\<close> is the outcome of
  \<open>await response.json()\<close>, a rejection (\<open>Inl\<close>) when the body is not JSON.
\<close>

record response =
  status :: nat
  statusText :: js_string
  json_body :: "js_error + json"

definition ok :: "response \<Rightarrow> bool" where
  "ok r = (200 \<le> status r \<and> status r \<le> 299)"

datatype error_details =
    NoDetails
  | DStatus nat js_string
  | DBody json
  | DCause js_error

record ChatApiError =
  message :: js_string
  details :: error_details

datatype thrown = ChatApi ChatApiError | Native js_error

text \<open>
  Lines 6 to 11, \<open>new ChatApiError(message, details)\<close>: \<open>super(message)\<close> converts the message
  to a string, and an exception of the conversion leaves the constructor.
\<close>

definition new_ChatApiError :: "js_string \<Rightarrow> json \<Rightarrow> error_details \<Rightarrow> js_error + ChatApiError" where
  "new_ChatApiError tm msg dt =
     (case js_ToString tm msg of
        Inl e \<Rightarrow> Inl e
      | Inr s \<Rightarrow> Inr \<lparr>message = s, details = dt\<rparr>)"

text \<open>
  Console output is kept as the sequence of calls, without their payloads; a call of the
  transport is kept with the request it was given.
\<close>

datatype console_entry =
    LogRequest | LogResponse | LogErrorDetails | LogParseFailure | LogSuccess | LogUnexpected

datatype io = Console console_entry | FetchCall request

text \<open>
  The surroundings of a call: the credential read from \<open>import.meta.env.VITE_API_KEY\<close>
  (\<open>None\<close> when the variable is not set), the transport, and the messages that the
  JavaScript engine gives the TypeError of reading a property of \<open>null\<close> and the TypeError
  of a failed conversion to a string.
\<close>

record env =
  API_KEY :: "js_string option"
  fetch :: "request \<Rightarrow> js_error + response"
  null_read_message :: js_string
  to_primitive_message :: js_string

definition API_URL :: js_string where
  "API_URL = js ''https://suxr2ydt.rpcl.host/api/v1/workspace/okulyapayzeka/chat''"

definition msg_missing_key :: js_string where
  "msg_missing_key =
    js ''API anahtar'' @ [305] @ js '' bulunamad'' @ [305] @ js ''. L'' @ [252] @
     js ''tfen .env dosyas'' @ [305] @ js ''nda VITE_API_KEY de'' @ [287] @ js ''i'' @
     [351] @ js ''kenini ayarlay'' @ [305] @ js ''n.''"

definition msg_status_prefix :: js_string where
  "msg_status_prefix =
    js ''API yan'' @ [305] @ js ''t hatas'' @ [305] @ js '': ''"

definition msg_invalid_key :: js_string where
  "msg_invalid_key =
    js ''Ge'' @ [231] @ js ''ersiz API anahtar'' @ [305] @ js ''. L'' @ [252] @
     js ''tfen API anahtar'' @ [305] @ js ''n'' @ [305] @ js ''z'' @ [305] @
     js '' kontrol edin ve .env dosyas'' @ [305] @ js ''nda VITE_API_KEY de'' @ [287] @
     js ''i'' @ [351] @ js ''kenini do'' @ [287] @ js ''ru '' @ [351] @
     js ''ekilde ayarlay'' @ [305] @ js ''n.''"

definition msg_access_denied :: js_string where
  "msg_access_denied =
    js ''API eri'' @ [351] @ js ''imi reddedildi. L'' @ [252] @
     js ''tfen yetkilendirme bilgilerinizi kontrol edin.''"

definition msg_invalid_request :: js_string where
  "msg_invalid_request =
    js ''Ge'' @ [231] @ js ''ersiz istek. L'' @ [252] @ js ''tfen g'' @ [246] @
     js ''nderdi'' @ [287] @ js ''iniz verileri kontrol edin.''"

definition msg_server_error :: js_string where
  "msg_server_error =
    js ''Sunucu hatas'' @ [305] @ js ''. L'' @ [252] @
     js ''tfen daha sonra tekrar deneyin.''"

definition msg_network :: js_string where
  "msg_network =
    js ''A'' @ [287] @ js '' ba'' @ [287] @ js ''lant'' @ [305] @ js '' hatas'' @ [305] @
     js ''. '' @ [304] @ js ''nternet ba'' @ [287] @ js ''lant'' @ [305] @ js ''n'' @
     [305] @ js ''z'' @ [305] @ js '' kontrol edin ve tekrar deneyin.''"

definition msg_unexpected :: js_string where
  "msg_unexpected =
    js ''Beklenmeyen bir hata olu'' @ [351] @ js ''tu. L'' @ [252] @
     js ''tfen tekrar deneyin.''"


subsection \<open>sendChatMessage\<close>

text \<open>Reading a property: a TypeError on \<open>null\<close>, \<open>undefined\<close> where there is none.\<close>

fun own_prop :: "json \<Rightarrow> js_string \<Rightarrow> json option" where
  "own_prop (JObj kvs) k = map_of kvs k"
| "own_prop v k = None"

definition get_prop :: "js_string \<Rightarrow> json \<Rightarrow> js_string \<Rightarrow> js_error + json option" where
  "get_prop nm v k = (if v = JNull then Inl (TypeError nm) else Inr (own_prop v k))"

text \<open>\<open>!API_KEY\<close>: the variable is not set, or is the empty string.\<close>

fun key_missing :: "js_string option \<Rightarrow> bool" where
  "key_missing None = True"
| "key_missing (Some k) = (k = [])"

definition requestBody :: "js_string \<Rightarrow> mode \<Rightarrow> js_string \<Rightarrow> ChatAttachment list option \<Rightarrow> bool \<Rightarrow> json" where
  "requestBody msg md sessionId attachments reset =
     JObj ([(js ''message'', JStr msg), (js ''mode'', JStr (mode_string md)),
            (js ''sessionId'', JStr sessionId), (js ''reset'', JBool reset)] @
           (case attachments of
              None \<Rightarrow> []
            | Some as \<Rightarrow> if length as > 0 then [(js ''attachments'', JArr (map attachment_json as))]
                         else []))"

definition build_request :: "js_string \<Rightarrow> json \<Rightarrow> request" where
  "build_request key b =
     \<lparr>url = API_URL, http_method = js ''POST'',
      headers = [(js ''Content-Type'', js ''application/json''),
                 (js ''Authorization'', js ''Bearer '' @ key),
                 (js ''Accept'', js ''application/json'')],
      body = b\<rparr>"

text \<open>
  Lines 71 to 85: the chain of tests on the parsed error body, started with the default
  message; the result is the value of \<open>errorMessage\<close> at line 91. \<open>Inl\<close> is an exception
  thrown on the way, which line 86 catches.
\<close>

definition classify :: "js_string \<Rightarrow> nat \<Rightarrow> json \<Rightarrow> json \<Rightarrow> js_error + json" where
  "classify nm st errorData errorMessage =
     (if st = 403 then
        (case get_prop nm errorData (js ''error'') of
           Inl e \<Rightarrow> Inl e
         | Inr er \<Rightarrow>
             if er = Some (JStr (js ''No valid api key found.'')) then Inr (JStr msg_invalid_key)
             else (case get_prop nm errorData (js ''message'') of
                     Inl e \<Rightarrow> Inl e
                   | Inr m \<Rightarrow>
                       if m = Some (JStr (js ''Invalid API Key'')) then Inr (JStr msg_invalid_key)
                       else Inr (JStr msg_access_denied)))
      else if st = 400 then
        (case get_prop nm errorData (js ''message'') of
           Inl e \<Rightarrow> Inl e
         | Inr m \<Rightarrow> Inr (if truthy_opt m then the m else JStr msg_invalid_request))
      else if st = 500 then Inr (JStr msg_server_error)
      else
        (case get_prop nm errorData (js ''message'') of
           Inl e \<Rightarrow> Inl e
         | Inr m \<Rightarrow>
             if truthy_opt m then Inr (the m)
             else (case get_prop nm errorData (js ''error'') of
                     Inl e \<Rightarrow> Inl e
                   | Inr er \<Rightarrow> if truthy_opt er then Inr (the er) else Inr errorMessage)))"

text \<open>
  Lines 64 to 95: the branch of a response that is not ok; it always throws. The
  constructor of line 91 is outside the inner \<open>try\<close>, so an exception of its conversion is
  what the branch throws.
\<close>

definition error_response :: "env \<Rightarrow> response \<Rightarrow> thrown \<times> io list" where
  "error_response e r =
     (let errorMessage0 = JStr (msg_status_prefix @ show_nat (status r) @ js '' '' @ statusText r);
          (errorMessage, tr) =
            (case json_body r of
               Inl parseError \<Rightarrow> (errorMessage0, [Console LogParseFailure])
             | Inr errorData \<Rightarrow>
                 (case classify (null_read_message e) (status r) errorData errorMessage0 of
                    Inl parseError \<Rightarrow>
                      (errorMessage0, [Console LogErrorDetails, Console LogParseFailure])
                  | Inr m \<Rightarrow> (m, [Console LogErrorDetails])))
      in case new_ChatApiError (to_primitive_message e) errorMessage
                (DStatus (status r) (statusText r)) of
           Inl ex \<Rightarrow> (Native ex, tr)
         | Inr err \<Rightarrow> (ChatApi err, tr))"

text \<open>
  Lines 97 to 111: the branch of an ok response. The summary logged at line 98 reads
  \<open>data.id\<close> first, which throws on \<open>null\<close>.
\<close>

definition ok_response :: "env \<Rightarrow> response \<Rightarrow> (thrown + json) \<times> io list" where
  "ok_response e r =
     (case json_body r of
        Inl ex \<Rightarrow> (Inl (Native ex), [])
      | Inr data \<Rightarrow>
          (case get_prop (null_read_message e) data (js ''id'') of
             Inl ex \<Rightarrow> (Inl (Native ex), [])
           | Inr i \<Rightarrow>
               (case get_prop (null_read_message e) data (js ''error'') of
                  Inl ex \<Rightarrow> (Inl (Native ex), [Console LogSuccess])
                | Inr er \<Rightarrow>
                    if truthy_opt er \<and> er \<noteq> Some (JStr (js ''null'')) \<and> er \<noteq> Some JNull
                    then (case new_ChatApiError (to_primitive_message e) (the er) (DBody data) of
                            Inl ex \<Rightarrow> (Inl (Native ex), [Console LogSuccess])
                          | Inr err \<Rightarrow> (Inl (ChatApi err), [Console LogSuccess]))
                    else (Inr data, [Console LogSuccess]))))"

text \<open>Lines 26 to 56: the request of a call, with the default values of the parameters.\<close>

definition request_of ::
  "env \<Rightarrow> js_string \<Rightarrow> mode option \<Rightarrow> js_string option \<Rightarrow> ChatAttachment list option \<Rightarrow>
   bool option \<Rightarrow> request" where
  "request_of e msg mode_arg session_arg attachments reset_arg =
     (let md = (case mode_arg of None \<Rightarrow> Chat | Some m \<Rightarrow> m);
          sessionId = (case session_arg of None \<Rightarrow> js ''user-session-1'' | Some s \<Rightarrow> s);
          reset = (case reset_arg of None \<Rightarrow> False | Some b \<Rightarrow> b)
      in build_request (the (API_KEY e)) (requestBody msg md sessionId attachments reset))"

text \<open>Lines 21 to 111: the body of the \<open>try\<close>.\<close>

definition sendChatMessage_try ::
  "env \<Rightarrow> js_string \<Rightarrow> mode option \<Rightarrow> js_string option \<Rightarrow> ChatAttachment list option \<Rightarrow>
   bool option \<Rightarrow> (thrown + json) \<times> io list" where
  "sendChatMessage_try e msg mode_arg session_arg attachments reset_arg =
     (if key_missing (API_KEY e)
      then (Inl (ChatApi \<lparr>message = msg_missing_key, details = NoDetails\<rparr>), [])
      else
        let req = request_of e msg mode_arg session_arg attachments reset_arg;
            io1 = [Console LogRequest, FetchCall req]
        in case fetch e req of
             Inl err \<Rightarrow> (Inl (Native err), io1)
           | Inr r \<Rightarrow>
               if \<not> ok r
               then (let (ex, io2) = error_response e r
                     in (Inl ex, io1 @ [Console LogResponse] @ io2))
               else (let (res, io2) = ok_response e r
                     in (res, io1 @ [Console LogResponse] @ io2)))"

text \<open>Lines 112 to 124: the \<open>catch\<close>; it always throws again.\<close>

definition catch_handler :: "thrown \<Rightarrow> thrown \<times> io list" where
  "catch_handler error =
     (case error of
        ChatApi err \<Rightarrow> (ChatApi err, [])
      | Native err \<Rightarrow>
          if is_TypeError err \<and> js_includes (error_text err) (js ''fetch'')
          then (ChatApi \<lparr>message = msg_network, details = DCause err\<rparr>, [])
          else (ChatApi \<lparr>message = msg_unexpected, details = DCause err\<rparr>,
                [Console LogUnexpected]))"

definition sendChatMessage ::
  "env \<Rightarrow> js_string \<Rightarrow> mode option \<Rightarrow> js_string option \<Rightarrow> ChatAttachment list option \<Rightarrow>
   bool option \<Rightarrow> (thrown + json) \<times> io list" where
  "sendChatMessage e msg mode_arg session_arg attachments reset_arg =
     (case sendChatMessage_try e msg mode_arg session_arg attachments reset_arg of
        (Inl error, tr) \<Rightarrow> (let (error', tr') = catch_handler error in (Inl error', tr @ tr'))
      | (Inr data, tr) \<Rightarrow> (Inr data, tr))"

text \<open>The requests handed to the transport during a call.\<close>

fun fetch_calls :: "io list \<Rightarrow> request list" where
  "fetch_calls [] = []"
| "fetch_calls (Console c # xs) = fetch_calls xs"
| "fetch_calls (FetchCall r # xs) = r # fetch_calls xs"


section \<open>The speech controller (useSpeechRecognition)\<close>

subsection \<open>State\<close>

text \<open>
  A caller's \<open>onSpeechEnd\<close> function is known by an identity; timers and recognition engines
  are known by handles. The platform gives \<open>setTimeout\<close> handles greater than zero, so the
  tests \<open>if (timeoutRef.current)\<close> are tests for a handle other than 0.
\<close>

type_synonym callback = nat
type_synonym handle = nat

datatype task = Dispatch callback js_string | Restart callback

datatype speech_log =
    LogPermissionError | LogStarting bool | LogStarted | LogTranscript js_string
  | LogFinal js_string | LogEnded | LogKeeping js_string | LogAborted | LogNotAllowed
  | LogEngineError js_string | LogStartError | LogStopping | LogResetting | LogRestarting

datatype effect =
    Log speech_log
  | Alert js_string
  | PermissionQuery
  | GetUserMedia
  | StopTracks nat
  | EngineNew handle
  | EngineConfig handle bool bool js_string
  | EngineStart handle
  | EngineStop handle
  | EngineAbort handle
  | Invoke callback js_string

text \<open>
  The hook's React state and refs under the names of the source, then the pending timers
  (in the order they were set), the last handles given out, and everything the hook has
  done to the outside so far.
\<close>

record hook =
  isListening :: bool
  transcript :: js_string
  isSupported :: bool
  recognitionRef :: "handle option"
  onSpeechEndRef :: "callback option"
  finalTranscriptRef :: js_string
  isVoiceModeRef :: bool
  timeoutRef :: "handle option"
  isProcessingRef :: bool
  lastProcessedTextRef :: js_string
  timers :: "(handle \<times> task) list"
  last_timer :: handle
  last_engine :: handle
  effects :: "effect list"

definition hook_init :: hook where
  "hook_init =
     \<lparr>isListening = False, transcript = [], isSupported = False, recognitionRef = None,
      onSpeechEndRef = None, finalTranscriptRef = [], isVoiceModeRef = False,
      timeoutRef = None, isProcessingRef = False, lastProcessedTextRef = [],
      timers = [], last_timer = 0, last_engine = 0, effects = []\<rparr>"

text \<open>
  What the platform answers: whether a recognition constructor exists, what the permission
  query and \<open>getUserMedia\<close> give (\<open>permissions = None\<close> when \<open>navigator\<close> has no permissions
  API), and whether the constructor or \<open>start()\<close> throws.
\<close>

record platform =
  has_recognition :: bool

datatype perm_state = Granted | Denied | Prompt

record perm_outcome =
  permissions :: "(js_error + perm_state) option"
  user_media :: "js_error + nat"

record engine_outcome =
  construct_error :: "js_error option"
  start_error :: "js_error option"

record speech_event =
  resultIndex :: nat
  results :: "(js_string \<times> bool) list"

definition msg_mic_denied :: js_string where
  "msg_mic_denied =
     js ''Mikrofon eri'' @ [351] @ js ''imi reddedildi. L'' @ [252] @ js ''tfen taray'' @ [305] @
     js ''c'' @ [305] @ js '' ayarlar'' @ [305] @
     js ''ndan mikrofon iznini verin ve sayfay'' @ [305] @ js '' yenileyin.''"

subsection \<open>Timers and strings\<close>

definition set_timeout :: "task \<Rightarrow> hook \<Rightarrow> handle \<times> hook" where
  "set_timeout t w =
     (let h = Suc (last_timer w) in (h, w\<lparr>last_timer := h, timers := timers w @ [(h, t)]\<rparr>))"

definition clear_timeout :: "handle \<Rightarrow> hook \<Rightarrow> hook" where
  "clear_timeout h w = w\<lparr>timers := filter (\<lambda>x. fst x \<noteq> h) (timers w)\<rparr>"

definition emit :: "effect list \<Rightarrow> hook \<Rightarrow> hook" where
  "emit es w = w\<lparr>effects := effects w @ es\<rparr>"

text \<open>The code units that \<open>String.prototype.trim\<close> strips: WhiteSpace and LineTerminator.\<close>

definition is_ws :: "nat \<Rightarrow> bool" where
  "is_ws c = (c \<in> set [9, 10, 11, 12, 13, 32, 160, 5760, 8192, 8193, 8194, 8195, 8196, 8197,
                        8198, 8199, 8200, 8201, 8202, 8232, 8233, 8239, 8287, 12288, 65279])"

definition trim :: "js_string \<Rightarrow> js_string" where
  "trim s = rev (dropWhile is_ws (rev (dropWhile is_ws s)))"

subsection \<open>The operations\<close>

text \<open>The mount effect, lines 45 to 51.\<close>

definition mount :: "platform \<Rightarrow> hook \<Rightarrow> hook" where
  "mount p w = (if has_recognition p then w\<lparr>isSupported := True\<rparr> else w)"

text \<open>Lines 53 to 64.\<close>

definition cleanup :: "hook \<Rightarrow> hook" where
  "cleanup w =
     (let w1 = (case timeoutRef w of
                  None \<Rightarrow> w
                | Some h \<Rightarrow> if h \<noteq> 0 then (clear_timeout h w)\<lparr>timeoutRef := None\<rparr> else w);
          w2 = (case recognitionRef w1 of
                  None \<Rightarrow> w1
                | Some r \<Rightarrow> (emit [EngineAbort r] w1)\<lparr>recognitionRef := None\<rparr>)
      in w2\<lparr>isListening := False, isProcessingRef := False\<rparr>)"

text \<open>Lines 66 to 84: the answer and what was asked of the platform on the way.\<close>

definition checkMicrophonePermission :: "perm_outcome \<Rightarrow> bool \<times> effect list" where
  "checkMicrophonePermission po =
     (case permissions po of
        Some (Inl e) \<Rightarrow> (False, [PermissionQuery, Log LogPermissionError])
      | Some (Inr Denied) \<Rightarrow> (False, [PermissionQuery])
      | q \<Rightarrow>
          (let asked = (if q = None then [] else [PermissionQuery])
           in case user_media po of
                Inl e \<Rightarrow> (False, asked @ [GetUserMedia, Log LogPermissionError])
              | Inr n \<Rightarrow> (True, asked @ [GetUserMedia, StopTracks n])))"

text \<open>
  \<open>startListening\<close> is an async function with one suspension, at line 90. The part before
  it returns \<open>None\<close> when the function has returned at line 87, and the permission
  otherwise; the part after it (lines 91 to 203) returns the exception that rejects the
  promise, if any.
\<close>

definition startListening_check :: "perm_outcome \<Rightarrow> hook \<Rightarrow> bool option \<times> hook" where
  "startListening_check po w =
     (if \<not> isSupported w then (None, w)
      else (let (hasPermission, es) = checkMicrophonePermission po
            in (Some hasPermission, emit es w)))"

definition startListening_resume ::
  "platform \<Rightarrow> engine_outcome \<Rightarrow> callback option \<Rightarrow> bool \<Rightarrow> hook \<Rightarrow> js_error option \<times> hook" where
  "startListening_resume p eo onSpeechEnd hasPermission w =
     (if \<not> hasPermission then (None, emit [Alert msg_mic_denied] w)
      else if \<not> has_recognition p then (None, w)
      else
        let w1 = emit [Log (LogStarting (onSpeechEnd \<noteq> None))] (cleanup w);
            w2 = w1\<lparr>isVoiceModeRef := (onSpeechEnd \<noteq> None), onSpeechEndRef := onSpeechEnd,
                    finalTranscriptRef := [], isProcessingRef := False,
                    lastProcessedTextRef := []\<rparr>
        in case construct_error eo of
             Some e \<Rightarrow> (Some e, w2)
           | None \<Rightarrow>
               (let r = Suc (last_engine w2);
                    w3 = (emit [EngineNew r, EngineConfig r True True (js ''tr-TR'')] w2)
                           \<lparr>last_engine := r, recognitionRef := Some r\<rparr>
                in case start_error eo of
                     None \<Rightarrow> (None, emit [EngineStart r] w3)
                   | Some e \<Rightarrow>
                       (None, (emit [EngineStart r, Log LogStartError] w3)
                                \<lparr>isListening := False, recognitionRef := None,
                                 isProcessingRef := False\<rparr>)))"

definition startListening ::
  "platform \<Rightarrow> perm_outcome \<Rightarrow> engine_outcome \<Rightarrow> callback option \<Rightarrow> hook \<Rightarrow> js_error option \<times> hook" where
  "startListening p po eo onSpeechEnd w =
     (case startListening_check po w of
        (None, w') \<Rightarrow> (None, w')
      | (Some hasPermission, w') \<Rightarrow> startListening_resume p eo onSpeechEnd hasPermission w')"

text \<open>Lines 120 to 124.\<close>

definition onstart :: "hook \<Rightarrow> hook" where
  "onstart w = (emit [Log LogStarted] w)\<lparr>isListening := True, transcript := []\<rparr>"

text \<open>Lines 130 to 140: the loop over the results, from \<open>resultIndex\<close> on.\<close>

fun result_loop :: "(js_string \<times> bool) list \<Rightarrow> js_string \<times> js_string \<Rightarrow> js_string \<times> js_string" where
  "result_loop [] (interimTranscript, finalTranscript) = (interimTranscript, finalTranscript)"
| "result_loop ((t, isFinal) # rs) (interimTranscript, finalTranscript) =
     (if isFinal then result_loop rs (interimTranscript, finalTranscript @ t)
      else result_loop rs (interimTranscript @ t, finalTranscript))"

text \<open>Lines 126 to 167, the handler of the engine \<open>r\<close>.\<close>

definition onresult :: "handle \<Rightarrow> speech_event \<Rightarrow> hook \<Rightarrow> hook" where
  "onresult r ev w =
     (let (interimTranscript, finalTranscript) =
            result_loop (drop (resultIndex ev) (results ev)) ([], []);
          w1 = w\<lparr>finalTranscriptRef := finalTranscriptRef w @ finalTranscript\<rparr>;
          currentTranscript = finalTranscriptRef w1 @ interimTranscript;
          w2 = (emit [Log (LogTranscript currentTranscript)] w1)\<lparr>transcript := currentTranscript\<rparr>
      in if finalTranscript \<noteq> [] \<and> isVoiceModeRef w2 \<and> onSpeechEndRef w2 \<noteq> None \<and>
            \<not> isProcessingRef w2
         then
           (let fullText = trim (finalTranscriptRef w2);
                w3 = emit [Log (LogFinal fullText)] w2
            in if fullText \<noteq> [] \<and> fullText \<noteq> lastProcessedTextRef w3 \<and> length fullText > 2
               then
                 snd (set_timeout (Dispatch (the (onSpeechEndRef w3)) fullText)
                        ((emit [EngineStop r] w3)
                           \<lparr>isProcessingRef := True, lastProcessedTextRef := fullText\<rparr>))
               else w3)
         else w2)"

text \<open>Lines 169 to 179.\<close>

definition onend :: "hook \<Rightarrow> hook" where
  "onend w =
     (let w1 = (emit [Log LogEnded] w)\<lparr>isListening := False, recognitionRef := None\<rparr>
      in if \<not> isVoiceModeRef w1 \<and> finalTranscriptRef w1 \<noteq> []
         then (emit [Log (LogKeeping (finalTranscriptRef w1))] w1)
                \<lparr>transcript := finalTranscriptRef w1\<rparr>
         else w1)"

text \<open>Lines 181 to 194.\<close>

definition onerror :: "js_string \<Rightarrow> hook \<Rightarrow> hook" where
  "onerror code w =
     (let w1 = (if code = js ''aborted'' then emit [Log LogAborted] w
                else if code = js ''not-allowed''
                then emit [Log LogNotAllowed, Alert msg_mic_denied] w
                else emit [Log (LogEngineError code)] w)
      in w1\<lparr>isListening := False, recognitionRef := None, isProcessingRef := False\<rparr>)"

text \<open>Lines 206 to 213.\<close>

definition stopListening :: "hook \<Rightarrow> hook" where
  "stopListening w =
     cleanup ((emit [Log LogStopping] w)
                \<lparr>isVoiceModeRef := False, onSpeechEndRef := None, isProcessingRef := False,
                 lastProcessedTextRef := []\<rparr>)"

text \<open>Lines 215 to 221.\<close>

definition resetTranscript :: "hook \<Rightarrow> hook" where
  "resetTranscript w =
     (emit [Log LogResetting] w)
       \<lparr>transcript := [], finalTranscriptRef := [], lastProcessedTextRef := [],
        isProcessingRef := False\<rparr>"

text \<open>Lines 224 to 241.\<close>

definition restartListening :: "callback \<Rightarrow> hook \<Rightarrow> hook" where
  "restartListening onSpeechEnd w =
     (let w1 = emit [Log LogRestarting] w;
          w2 = (case timeoutRef w1 of
                  None \<Rightarrow> w1
                | Some h \<Rightarrow> if h \<noteq> 0 then clear_timeout h w1 else w1);
          w3 = w2\<lparr>isProcessingRef := False\<rparr>;
          (h, w4) = set_timeout (Restart onSpeechEnd) w3
      in w4\<lparr>timeoutRef := Some h\<rparr>)"

text \<open>
  A pending timer comes due. The dispatch timer (lines 160 to 164) calls the callback it
  captured; the restart timer (lines 236 to 240) calls \<open>startListening\<close>, which runs up to
  its suspension.
\<close>

definition timer_fires :: "perm_outcome \<Rightarrow> handle \<Rightarrow> hook \<Rightarrow> hook" where
  "timer_fires po h w =
     (case map_of (timers w) h of
        None \<Rightarrow> w
      | Some (Dispatch callback fullText) \<Rightarrow> emit [Invoke callback fullText] (clear_timeout h w)
      | Some (Restart onSpeechEnd) \<Rightarrow>
          (let w1 = clear_timeout h w
           in if isVoiceModeRef w1 then snd (startListening_check po w1) else w1))"

subsection \<open>Runs\<close>

text \<open>
  What can happen to a mounted hook, one event at a time: the caller's calls, the engine's
  events and the timers. The two parts of \<open>startListening\<close> are separate events, since
  anything may happen while the permission check is awaited.
\<close>

datatype event =
    Mount
  | StartCheck perm_outcome
  | StartResume engine_outcome "callback option" bool
  | Stop
  | Reset
  | RestartCall callback
  | OnStart
  | OnResult handle speech_event
  | OnEnd
  | OnError js_string
  | TimerFires perm_outcome handle

fun step :: "platform \<Rightarrow> event \<Rightarrow> hook \<Rightarrow> hook" where
  "step p Mount w = mount p w"
| "step p (StartCheck po) w = snd (startListening_check po w)"
| "step p (StartResume eo cb hasPermission) w = snd (startListening_resume p eo cb hasPermission w)"
| "step p Stop w = stopListening w"
| "step p Reset w = resetTranscript w"
| "step p (RestartCall cb) w = restartListening cb w"
| "step p OnStart w = onstart w"
| "step p (OnResult r ev) w = onresult r ev w"
| "step p OnEnd w = onend w"
| "step p (OnError code) w = onerror code w"
| "step p (TimerFires po h) w = timer_fires po h w"

fun run :: "platform \<Rightarrow> event list \<Rightarrow> hook \<Rightarrow> hook" where
  "run p [] w = w"
| "run p (e # es) w = run p es (step p e w)"

text \<open>The pending restart timers, and the calls made to callbacks so far.\<close>

fun is_restart :: "task \<Rightarrow> bool" where
  "is_restart (Restart cb) = True"
| "is_restart (Dispatch cb t) = False"

definition restart_timers :: "hook \<Rightarrow> (handle \<times> task) list" where
  "restart_timers w = filter (\<lambda>x. is_restart (snd x)) (timers w)"

fun invocations :: "effect list \<Rightarrow> (callback \<times> js_string) list" where
  "invocations [] = []"
| "invocations (Invoke cb t # es) = (cb, t) # invocations es"
| "invocations (e # es) = invocations es"


section \<open>The classification policy of the specification\<close>

text \<open>
  The policy of section 4.1 of the specification for a response that is not 2xx, case by
  case in its order, over the parsed error body; a field counts when it is truthy. It gives
  the value that becomes the message, and is compared with \<open>error_response\<close> below.
\<close>

definition status_line :: "response \<Rightarrow> js_string" where
  "status_line r = msg_status_prefix @ show_nat (status r) @ js '' '' @ statusText r"

definition indicates_invalid_key :: "json \<Rightarrow> bool" where
  "indicates_invalid_key b =
     (own_prop b (js ''error'') = Some (JStr (js ''No valid api key found.'')) \<or>
      own_prop b (js ''message'') = Some (JStr (js ''Invalid API Key'')))"

definition policy_message :: "response \<Rightarrow> json" where
  "policy_message r =
     (case json_body r of
        Inl e \<Rightarrow> JStr (status_line r)
      | Inr b \<Rightarrow>
          if status r = 403 \<and> indicates_invalid_key b then JStr msg_invalid_key
          else if status r = 403 then JStr msg_access_denied
          else if status r = 400 then
            (if truthy_opt (own_prop b (js ''message'')) then the (own_prop b (js ''message''))
             else JStr msg_invalid_request)
          else if status r = 500 then JStr msg_server_error
          else if truthy_opt (own_prop b (js ''message'')) then the (own_prop b (js ''message''))
          else if truthy_opt (own_prop b (js ''error'')) then the (own_prop b (js ''error''))
          else JStr (status_line r))"

section \<open>Sample surroundings\<close>

text \<open>A transport that answers every request the same way, and surroundings built on it.\<close>

definition constant_transport :: "js_error + response \<Rightarrow> request \<Rightarrow> js_error + response" where
  "constant_transport answer req = answer"

definition sample_env :: "js_string option \<Rightarrow> js_error + response \<Rightarrow> env" where
  "sample_env key answer =
     \<lparr>API_KEY = key, fetch = constant_transport answer,
      null_read_message = js ''Cannot read properties of null (reading 'id')'',
      to_primitive_message = js ''Cannot convert object to primitive value''\<rparr>"

definition json_response :: "nat \<Rightarrow> js_string \<Rightarrow> json \<Rightarrow> js_error + response" where
  "json_response st txt b = Inr \<lparr>status = st, statusText = txt, json_body = Inr b\<rparr>"


section \<open>Sample sessions of the speech controller\<close>

definition sample_platform :: platform where
  "sample_platform = \<lparr>has_recognition = True\<rparr>"

definition bare_platform :: platform where
  "bare_platform = \<lparr>has_recognition = False\<rparr>"

definition mic_granted :: perm_outcome where
  "mic_granted = \<lparr>permissions = Some (Inr Granted), user_media = Inr 1\<rparr>"

definition engine_fine :: engine_outcome where
  "engine_fine = \<lparr>construct_error = None, start_error = None\<rparr>"

definition engine_start_fails :: engine_outcome where
  "engine_start_fails =
     \<lparr>construct_error = None,
      start_error = Some (OtherError (js ''InvalidStateError'') (js ''recognition has already started''))\<rparr>"

definition engine_construct_fails :: engine_outcome where
  "engine_construct_fails =
     \<lparr>construct_error = Some (TypeError (js ''Illegal constructor'')), start_error = None\<rparr>"

text \<open>A result event that carries one finalized segment.\<close>

definition final_event :: "js_string \<Rightarrow> speech_event" where
  "final_event t = \<lparr>resultIndex = 0, results = [(t, True)]\<rparr>"

section \<open>Notions used in the statements\<close>

text \<open>The finalized text of an event: what the loop of lines 130 to 140 adds to the buffer.\<close>

definition final_text :: "speech_event \<Rightarrow> js_string" where
  "final_text ev = snd (result_loop (drop (resultIndex ev) (results ev)) ([], []))"




text \<open>
  Every pending timer has a handle other than 0, and a pending restart timer is the one
  that \<open>timeoutRef\<close> holds.
\<close>

definition restart_inv :: "hook \<Rightarrow> bool" where
  "restart_inv w =
     list_all (\<lambda>x. fst x \<noteq> 0 \<and> (is_restart (snd x) \<longrightarrow> timeoutRef w = Some (fst x))) (timers w)"

section \<open>Code units\<close>

lemma js_eq_iff [simp]: "js a = js b \<longleftrightarrow> a = b"
  by (simp add: js_def inj_map_eq_map inj_of_char)

lemma js_Nil_iff [simp]: "js a = [] \<longleftrightarrow> a = []" "[] = js a \<longleftrightarrow> a = []"
  by (auto simp add: js_def)

section \<open>Properties of the chat client\<close>

lemma fetch_calls_append [simp]: "fetch_calls (xs @ ys) = fetch_calls xs @ fetch_calls ys"
  by (induction xs rule: fetch_calls.induct) simp_all

lemma error_response_calls [simp]: "fetch_calls (snd (error_response e r)) = []"
  by (simp add: error_response_def Let_def split_beta split: sum.splits)

lemma ok_response_calls [simp]: "fetch_calls (snd (ok_response e r)) = []"
  by (simp add: ok_response_def split: sum.splits)

lemma catch_handler_calls [simp]: "fetch_calls (snd (catch_handler t)) = []"
  by (simp add: catch_handler_def split: thrown.splits)

lemma try_calls:
  "fetch_calls (snd (sendChatMessage_try e msg md sid atts rs)) =
     (if key_missing (API_KEY e) then [] else [request_of e msg md sid atts rs])"
  by (simp add: sendChatMessage_try_def Let_def split_beta split: sum.splits)

lemma send_calls:
  "fetch_calls (snd (sendChatMessage e msg md sid atts rs)) =
     (if key_missing (API_KEY e) then [] else [request_of e msg md sid atts rs])"
proof -
  have "fetch_calls (snd (sendChatMessage e msg md sid atts rs)) =
        fetch_calls (snd (sendChatMessage_try e msg md sid atts rs))"
    by (simp add: sendChatMessage_def split_beta split: prod.splits sum.splits)
  then show ?thesis by (simp add: try_calls)
qed

text \<open>What a call gives is what the \<open>try\<close> gives, with the \<open>catch\<close> applied to an exception.\<close>

lemma send_from_try:
  "fst (sendChatMessage e msg md sid atts rs) =
     (case fst (sendChatMessage_try e msg md sid atts rs) of
        Inl t \<Rightarrow> Inl (fst (catch_handler t))
      | Inr data \<Rightarrow> Inr data)"
  by (simp add: sendChatMessage_def split_beta split: prod.splits sum.splits)

lemma try_not_ok:
  assumes "\<not> key_missing (API_KEY e)"
    and "fetch e (request_of e msg md sid atts rs) = Inr r"
    and "\<not> ok r"
  shows "fst (sendChatMessage_try e msg md sid atts rs) = Inl (fst (error_response e r))"
  using assms by (simp add: sendChatMessage_try_def Let_def split_beta)

lemma try_ok:
  assumes "\<not> key_missing (API_KEY e)"
    and "fetch e (request_of e msg md sid atts rs) = Inr r"
    and "ok r"
  shows "fst (sendChatMessage_try e msg md sid atts rs) = fst (ok_response e r)"
  using assms by (simp add: sendChatMessage_try_def Let_def split_beta)

lemma ok_response_data:
  assumes "json_body r = Inr data" and "data \<noteq> JNull"
  shows "fst (ok_response e r) =
           (if truthy_opt (own_prop data (js ''error'')) \<and>
               own_prop data (js ''error'') \<noteq> Some (JStr (js ''null''))
            then (case js_ToString (to_primitive_message e) (the (own_prop data (js ''error''))) of
                    Inl ex \<Rightarrow> Inl (Native ex)
                  | Inr s \<Rightarrow> Inl (ChatApi \<lparr>message = s, details = DBody data\<rparr>))
            else Inr data)"
  using assms
  by (auto simp add: ok_response_def get_prop_def new_ChatApiError_def split: sum.splits)

lemma send_ok_data:
  assumes "\<not> key_missing (API_KEY e)"
    and "fetch e (request_of e msg md sid atts rs) = Inr r"
    and "ok r"
    and "json_body r = Inr data"
    and "data \<noteq> JNull"
  shows "fst (sendChatMessage e msg md sid atts rs) =
           (if truthy_opt (own_prop data (js ''error'')) \<and>
               own_prop data (js ''error'') \<noteq> Some (JStr (js ''null''))
            then (case js_ToString (to_primitive_message e) (the (own_prop data (js ''error''))) of
                    Inl ex \<Rightarrow> Inl (fst (catch_handler (Native ex)))
                  | Inr s \<Rightarrow> Inl (ChatApi \<lparr>message = s, details = DBody data\<rparr>))
            else Inr data)"
  by (simp add: send_from_try try_ok [OF assms(1-3)] ok_response_data [OF assms(4,5)]
        catch_handler_def split: sum.splits)

text \<open>
  C1, as amended. A 2xx response whose parsed body is not \<open>null\<close>. When the body's \<open>error\<close>
  field is truthy, is not the string "null" and converts to a string, the call throws a
  ChatApiError whose message is that string and whose details are the whole body: a string
  is its own message, a number is written as JavaScript writes it, \<open>true\<close> is "true", an
  object without a \<open>toString\<close> key is "[object Object]". When the field is absent, falsy
  (null, the empty string, 0, false) or the string "null", the call returns the parsed
  body unchanged.
\<close>

theorem embedded_error_raised_or_body_returned:
  assumes "\<not> key_missing (API_KEY e)"
    and "fetch e (request_of e msg md sid atts rs) = Inr r"
    and "ok r"
    and "json_body r = Inr data"
    and "data \<noteq> JNull"
  shows "(\<forall>s. truthy_opt (own_prop data (js ''error'')) \<and>
              own_prop data (js ''error'') \<noteq> Some (JStr (js ''null'')) \<and>
              js_ToString (to_primitive_message e) (the (own_prop data (js ''error''))) = Inr s \<longrightarrow>
            fst (sendChatMessage e msg md sid atts rs) =
              Inl (ChatApi \<lparr>message = s, details = DBody data\<rparr>)) \<and>
         (\<forall>s. own_prop data (js ''error'') = Some (JStr s) \<and> s \<noteq> [] \<and> s \<noteq> js ''null'' \<longrightarrow>
            fst (sendChatMessage e msg md sid atts rs) =
              Inl (ChatApi \<lparr>message = s, details = DBody data\<rparr>)) \<and>
         (\<forall>n. own_prop data (js ''error'') = Some (JNum n) \<and> n \<noteq> js ''0'' \<longrightarrow>
            fst (sendChatMessage e msg md sid atts rs) =
              Inl (ChatApi \<lparr>message = n, details = DBody data\<rparr>)) \<and>
         (own_prop data (js ''error'') = Some (JBool True) \<longrightarrow>
            fst (sendChatMessage e msg md sid atts rs) =
              Inl (ChatApi \<lparr>message = js ''true'', details = DBody data\<rparr>)) \<and>
         (\<forall>kvs. own_prop data (js ''error'') = Some (JObj kvs) \<and> map_of kvs (js ''toString'') = None \<longrightarrow>
            fst (sendChatMessage e msg md sid atts rs) =
              Inl (ChatApi \<lparr>message = js ''[object Object]'', details = DBody data\<rparr>)) \<and>
         (\<not> truthy_opt (own_prop data (js ''error'')) \<or>
          own_prop data (js ''error'') = Some (JStr (js ''null'')) \<longrightarrow>
            fst (sendChatMessage e msg md sid atts rs) = Inr data)"
  by (auto simp add: send_ok_data [OF assms])

text \<open>
  The theorem at two bodies: one with \<open>error = "boom"\<close>, which is thrown, and one with
  \<open>error = null\<close>, which is returned as it came.
\<close>

theorem embedded_error_raised_or_body_returned_witness:
  "fst (sendChatMessage
          (sample_env (Some (js ''k'')) (json_response 200 (js ''OK'') (JObj [(js ''error'', JStr (js ''boom''))])))
          (js ''hello'') None None None None) =
     Inl (ChatApi \<lparr>message = js ''boom'', details = DBody (JObj [(js ''error'', JStr (js ''boom''))])\<rparr>) \<and>
   fst (sendChatMessage
          (sample_env (Some (js ''k'')) (json_response 200 (js ''OK'') (JObj [(js ''id'', JStr (js ''1'')), (js ''error'', JNull)])))
          (js ''hello'') None None None None) =
     Inr (JObj [(js ''id'', JStr (js ''1'')), (js ''error'', JNull)])"
  using embedded_error_raised_or_body_returned
          [of "sample_env (Some (js ''k'')) (json_response 200 (js ''OK'') (JObj [(js ''error'', JStr (js ''boom''))]))"
              "js ''hello''" None None None None
              "\<lparr>status = 200, statusText = js ''OK'', json_body = Inr (JObj [(js ''error'', JStr (js ''boom''))])\<rparr>"
              "JObj [(js ''error'', JStr (js ''boom''))]"]
        embedded_error_raised_or_body_returned
          [of "sample_env (Some (js ''k'')) (json_response 200 (js ''OK'') (JObj [(js ''id'', JStr (js ''1'')), (js ''error'', JNull)]))"
              "js ''hello''" None None None None
              "\<lparr>status = 200, statusText = js ''OK'', json_body = Inr (JObj [(js ''id'', JStr (js ''1'')), (js ''error'', JNull)])\<rparr>"
              "JObj [(js ''id'', JStr (js ''1'')), (js ''error'', JNull)]"]
  by (simp add: sample_env_def json_response_def constant_transport_def ok_def)

text \<open>
  C1 as stated fails at three 2xx bodies. The \<open>error\<close> field of the first is the empty
  string, which is neither null nor the string "null": the body is returned, not thrown.
  The second body is \<open>null\<close>, which has no \<open>error\<close> field: the call throws the fallback error
  instead of returning it. The \<open>error\<close> field of the third is an object with a \<open>toString\<close>
  key: what is thrown is the fallback error with the TypeError of the conversion as
  details, not an error with that value as message and the body as details.
\<close>

theorem empty_error_string_counterexample:
  "own_prop (JObj [(js ''error'', JStr [])]) (js ''error'') = Some (JStr []) \<and>
   JStr [] \<noteq> JNull \<and> JStr [] \<noteq> JStr (js ''null'') \<and>
   fst (sendChatMessage
          (sample_env (Some (js ''k'')) (json_response 200 (js ''OK'') (JObj [(js ''error'', JStr [])])))
          (js ''hello'') None None None None) =
     Inr (JObj [(js ''error'', JStr [])]) \<and>
   fst (sendChatMessage
          (sample_env (Some (js ''k'')) (json_response 200 (js ''OK'') JNull))
          (js ''hello'') None None None None) =
     Inl (ChatApi \<lparr>message = msg_unexpected,
                   details = DCause (TypeError (js ''Cannot read properties of null (reading 'id')''))\<rparr>) \<and>
   fst (sendChatMessage
          (sample_env (Some (js ''k''))
             (json_response 200 (js ''OK'') (JObj [(js ''error'', JObj [(js ''toString'', JNum (js ''1''))])])))
          (js ''hello'') None None None None) =
     Inl (ChatApi \<lparr>message = msg_unexpected,
                   details = DCause (TypeError (js ''Cannot convert object to primitive value''))\<rparr>)"
proof -
  have a: "\<not> js_includes (js ''Cannot read properties of null (reading 'id')'') (js ''fetch'')"
    by (simp add: js_def)
  have b: "\<not> js_includes (js ''Cannot convert object to primitive value'') (js ''fetch'')"
    by (simp add: js_def)
  show ?thesis
    using a b
    by (simp add: sendChatMessage_def sendChatMessage_try_def sample_env_def json_response_def
          constant_transport_def ok_def ok_response_def get_prop_def new_ChatApiError_def
          catch_handler_def)
qed


text \<open>The value that line 91 makes the message of, for every response that is not ok.\<close>

lemma classify_not_null:
  assumes "json_body r = Inr d" and "d \<noteq> JNull"
  shows "classify nm (status r) d (JStr (status_line r)) = Inr (policy_message r)"
  using assms
  by (simp add: classify_def policy_message_def get_prop_def indicates_invalid_key_def)

lemma classify_null:
  "classify nm st JNull dflt =
     (if st = 403 \<or> st = 400 then Inl (TypeError nm)
      else if st = 500 then Inr (JStr msg_server_error)
      else Inl (TypeError nm))"
  by (simp add: classify_def get_prop_def)

lemma policy_message_null:
  "json_body r = Inr JNull \<Longrightarrow> status r \<noteq> 403 \<Longrightarrow> status r \<noteq> 400 \<Longrightarrow>
   policy_message r = (if status r = 500 then JStr msg_server_error else JStr (status_line r))"
  by (simp add: policy_message_def)

lemma error_response_policy:
  "fst (error_response e r) =
     (case js_ToString (to_primitive_message e)
             (if json_body r = Inr JNull \<and> (status r = 403 \<or> status r = 400)
              then JStr (status_line r) else policy_message r) of
        Inl ex \<Rightarrow> Native ex
      | Inr m \<Rightarrow> ChatApi \<lparr>message = m, details = DStatus (status r) (statusText r)\<rparr>)"
proof (cases "json_body r")
  case (Inl ex)
  then show ?thesis
    by (simp add: error_response_def policy_message_def status_line_def new_ChatApiError_def)
next
  case (Inr d)
  show ?thesis
  proof (cases "d = JNull")
    case True
    with Inr show ?thesis
      by (simp add: error_response_def classify_null policy_message_null new_ChatApiError_def
            status_line_def [symmetric])
  next
    case False
    with Inr show ?thesis
      using classify_not_null [of r d "null_read_message e"]
      by (simp add: error_response_def new_ChatApiError_def status_line_def [symmetric]
            split: sum.splits)
  qed
qed

text \<open>
  C2, as amended. A response that is not 2xx makes the call throw a ChatApiError whose
  details are the status and the status text, and whose message is the value that the
  policy selects on the parsed body, a field counting when it is truthy, provided that
  value converts to a string; a body that fails to parse, or that parses to \<open>null\<close> under
  status 403 or 400, gives the status line.
\<close>

theorem not_ok_response_classified:
  assumes "\<not> key_missing (API_KEY e)"
    and "fetch e (request_of e msg md sid atts rs) = Inr r"
    and "\<not> ok r"
    and "js_ToString (to_primitive_message e)
           (if json_body r = Inr JNull \<and> (status r = 403 \<or> status r = 400)
            then JStr (status_line r) else policy_message r) = Inr m"
  shows "fst (sendChatMessage e msg md sid atts rs) =
           Inl (ChatApi \<lparr>message = m, details = DStatus (status r) (statusText r)\<rparr>)"
  using assms(4)
  by (simp add: send_from_try try_not_ok [OF assms(1-3)] error_response_policy catch_handler_def)

text \<open>
  The theorem at a 403 response whose body says that no valid key was found, and the other
  rows of the table at sample responses, with the messages of the source written out.
\<close>

theorem not_ok_response_classified_witness:
  "fst (sendChatMessage
          (sample_env (Some (js ''k''))
             (json_response 403 (js ''Forbidden'') (JObj [(js ''error'', JStr (js ''No valid api key found.''))])))
          (js ''hello'') None None None None) =
     Inl (ChatApi
           \<lparr>message =
              js ''Ge'' @ [231] @ js ''ersiz API anahtar'' @ [305] @ js ''. L'' @ [252] @
              js ''tfen API anahtar'' @ [305] @ js ''n'' @ [305] @ js ''z'' @ [305] @
              js '' kontrol edin ve .env dosyas'' @ [305] @ js ''nda VITE_API_KEY de'' @ [287] @
              js ''i'' @ [351] @ js ''kenini do'' @ [287] @ js ''ru '' @ [351] @
              js ''ekilde ayarlay'' @ [305] @ js ''n.'',
            details = DStatus 403 (js ''Forbidden'')\<rparr>) \<and>
   fst (sendChatMessage
          (sample_env (Some (js ''k'')) (json_response 403 (js ''Forbidden'') (JObj [])))
          (js ''hello'') None None None None) =
     Inl (ChatApi
           \<lparr>message =
              js ''API eri'' @ [351] @ js ''imi reddedildi. L'' @ [252] @
              js ''tfen yetkilendirme bilgilerinizi kontrol edin.'',
            details = DStatus 403 (js ''Forbidden'')\<rparr>) \<and>
   fst (sendChatMessage
          (sample_env (Some (js ''k''))
             (json_response 400 (js ''Bad Request'') (JObj [(js ''message'', JStr (js ''no such mode''))])))
          (js ''hello'') None None None None) =
     Inl (ChatApi \<lparr>message = js ''no such mode'', details = DStatus 400 (js ''Bad Request'')\<rparr>) \<and>
   fst (sendChatMessage
          (sample_env (Some (js ''k'')) (json_response 400 (js ''Bad Request'') (JObj [])))
          (js ''hello'') None None None None) =
     Inl (ChatApi
           \<lparr>message =
              js ''Ge'' @ [231] @ js ''ersiz istek. L'' @ [252] @ js ''tfen g'' @ [246] @
              js ''nderdi'' @ [287] @ js ''iniz verileri kontrol edin.'',
            details = DStatus 400 (js ''Bad Request'')\<rparr>) \<and>
   fst (sendChatMessage
          (sample_env (Some (js ''k''))
             (json_response 500 (js ''Internal Server Error'') (JObj [(js ''message'', JStr (js ''boom''))])))
          (js ''hello'') None None None None) =
     Inl (ChatApi
           \<lparr>message =
              js ''Sunucu hatas'' @ [305] @ js ''. L'' @ [252] @ js ''tfen daha sonra tekrar deneyin.'',
            details = DStatus 500 (js ''Internal Server Error'')\<rparr>) \<and>
   fst (sendChatMessage
          (sample_env (Some (js ''k''))
             (json_response 404 (js ''Not Found'') (JObj [(js ''error'', JStr (js ''no workspace''))])))
          (js ''hello'') None None None None) =
     Inl (ChatApi \<lparr>message = js ''no workspace'', details = DStatus 404 (js ''Not Found'')\<rparr>) \<and>
   fst (sendChatMessage
          (sample_env (Some (js ''k''))
             (Inr \<lparr>status = 502, statusText = js ''Bad Gateway'',
                   json_body = Inl (OtherError (js ''SyntaxError'') (js ''Unexpected token <''))\<rparr>))
          (js ''hello'') None None None None) =
     Inl (ChatApi
           \<lparr>message = js ''API yan'' @ [305] @ js ''t hatas'' @ [305] @ js '': 502 Bad Gateway'',
            details = DStatus 502 (js ''Bad Gateway'')\<rparr>)"
proof -
  have row1: "fst (sendChatMessage
          (sample_env (Some (js ''k''))
             (json_response 403 (js ''Forbidden'') (JObj [(js ''error'', JStr (js ''No valid api key found.''))])))
          (js ''hello'') None None None None) =
     Inl (ChatApi \<lparr>message = msg_invalid_key, details = DStatus 403 (js ''Forbidden'')\<rparr>)"
    using not_ok_response_classified
          [of "sample_env (Some (js ''k''))
                 (json_response 403 (js ''Forbidden'') (JObj [(js ''error'', JStr (js ''No valid api key found.''))]))"
              "js ''hello''" None None None None
              "\<lparr>status = 403, statusText = js ''Forbidden'',
                json_body = Inr (JObj [(js ''error'', JStr (js ''No valid api key found.''))])\<rparr>"
              msg_invalid_key]
    by (simp add: sample_env_def json_response_def constant_transport_def ok_def
        policy_message_def indicates_invalid_key_def)
  have n: "show_nat 502 = js ''502''"
    by (simp add: show_nat.simps js_def)
  have t: "js '': '' @ js ''502 Bad Gateway'' = js '': 502 Bad Gateway''"
    by (simp add: js_def)
  have rest: "fst (sendChatMessage
          (sample_env (Some (js ''k'')) (json_response 403 (js ''Forbidden'') (JObj [])))
          (js ''hello'') None None None None) =
     Inl (ChatApi \<lparr>message = msg_access_denied, details = DStatus 403 (js ''Forbidden'')\<rparr>)"
   "fst (sendChatMessage
          (sample_env (Some (js ''k''))
             (json_response 400 (js ''Bad Request'') (JObj [(js ''message'', JStr (js ''no such mode''))])))
          (js ''hello'') None None None None) =
     Inl (ChatApi \<lparr>message = js ''no such mode'', details = DStatus 400 (js ''Bad Request'')\<rparr>)"
   "fst (sendChatMessage
          (sample_env (Some (js ''k'')) (json_response 400 (js ''Bad Request'') (JObj [])))
          (js ''hello'') None None None None) =
     Inl (ChatApi \<lparr>message = msg_invalid_request, details = DStatus 400 (js ''Bad Request'')\<rparr>)"
   "fst (sendChatMessage
          (sample_env (Some (js ''k''))
             (json_response 500 (js ''Internal Server Error'') (JObj [(js ''message'', JStr (js ''boom''))])))
          (js ''hello'') None None None None) =
     Inl (ChatApi \<lparr>message = msg_server_error, details = DStatus 500 (js ''Internal Server Error'')\<rparr>)"
   "fst (sendChatMessage
          (sample_env (Some (js ''k''))
             (json_response 404 (js ''Not Found'') (JObj [(js ''error'', JStr (js ''no workspace''))])))
          (js ''hello'') None None None None) =
     Inl (ChatApi \<lparr>message = js ''no workspace'', details = DStatus 404 (js ''Not Found'')\<rparr>)"
   "fst (sendChatMessage
          (sample_env (Some (js ''k''))
             (Inr \<lparr>status = 502, statusText = js ''Bad Gateway'',
                   json_body = Inl (OtherError (js ''SyntaxError'') (js ''Unexpected token <''))\<rparr>))
          (js ''hello'') None None None None) =
     Inl (ChatApi \<lparr>message = msg_status_prefix @ js ''502 Bad Gateway'',
                   details = DStatus 502 (js ''Bad Gateway'')\<rparr>)"
    using n
    by (simp_all add: sendChatMessage_def sendChatMessage_try_def sample_env_def json_response_def
          constant_transport_def ok_def error_response_def classify_def get_prop_def
          new_ChatApiError_def catch_handler_def js_def)
  from row1 rest t show ?thesis
    by (simp add: msg_invalid_key_def msg_access_denied_def msg_invalid_request_def
          msg_server_error_def msg_status_prefix_def)
qed

lemma msg_invalid_request_not_empty: "msg_invalid_request \<noteq> []"
  by (simp add: msg_invalid_request_def js_def)

lemma msg_access_denied_not_status_line:
  "msg_access_denied \<noteq> msg_status_prefix @ rest"
  by (simp add: msg_access_denied_def msg_status_prefix_def js_def)

text \<open>
  C2 as stated fails at three responses. Under status 400 a body whose \<open>message\<close> field is
  the empty string gives the generic invalid-request message, not the field. Under status
  403 the body \<open>null\<close>, which is JSON, gives the status line, not the access-denied message.
  Under status 404 a body whose \<open>message\<close> field is an object with a \<open>toString\<close> key makes
  the constructor of line 91 throw: the error that leaves the call is the fallback error
  with that TypeError as details, not the status and the status text.
\<close>

theorem empty_message_field_counterexample:
  "own_prop (JObj [(js ''message'', JStr [])]) (js ''message'') = Some (JStr []) \<and>
   fst (sendChatMessage
          (sample_env (Some (js ''k''))
             (json_response 400 (js ''Bad Request'') (JObj [(js ''message'', JStr [])])))
          (js ''hello'') None None None None) =
     Inl (ChatApi \<lparr>message = msg_invalid_request, details = DStatus 400 (js ''Bad Request'')\<rparr>) \<and>
   msg_invalid_request \<noteq> [] \<and>
   fst (sendChatMessage
          (sample_env (Some (js ''k'')) (json_response 403 (js ''Forbidden'') JNull))
          (js ''hello'') None None None None) =
     Inl (ChatApi \<lparr>message = msg_status_prefix @ js ''403 Forbidden'',
                   details = DStatus 403 (js ''Forbidden'')\<rparr>) \<and>
   msg_access_denied \<noteq> msg_status_prefix @ js ''403 Forbidden'' \<and>
   fst (sendChatMessage
          (sample_env (Some (js ''k''))
             (json_response 404 (js ''Not Found'')
                (JObj [(js ''message'', JObj [(js ''toString'', JNum (js ''1''))])])))
          (js ''hello'') None None None None) =
     Inl (ChatApi \<lparr>message = msg_unexpected,
                   details = DCause (TypeError (js ''Cannot convert object to primitive value''))\<rparr>)"
proof -
  have b: "\<not> js_includes (js ''Cannot convert object to primitive value'') (js ''fetch'')"
    by (simp add: js_def)
  have s: "show_nat 403 = js ''403''"
    by (simp add: show_nat.simps js_def)
  have t: "js ''403'' @ js '' '' @ js ''Forbidden'' = js ''403 Forbidden''"
    by (simp add: js_def)
  show ?thesis
    using b t
    by (simp add: sendChatMessage_def sendChatMessage_try_def sample_env_def json_response_def
          constant_transport_def ok_def error_response_def classify_def get_prop_def
          new_ChatApiError_def catch_handler_def msg_invalid_request_not_empty
          msg_access_denied_not_status_line s)
qed

text \<open>
  C5. Without a credential (the variable is not set, or is empty) every call throws the
  ChatApiError of the missing credential at once: nothing is logged and the transport is
  never called.
\<close>

theorem missing_key_fails_without_network:
  assumes "key_missing (API_KEY e)"
  shows "sendChatMessage e msg md sid atts rs =
           (Inl (ChatApi \<lparr>message = msg_missing_key, details = NoDetails\<rparr>), []) \<and>
         fetch_calls (snd (sendChatMessage e msg md sid atts rs)) = []"
  using assms by (simp add: sendChatMessage_def sendChatMessage_try_def catch_handler_def)

text \<open>
  The theorem with the variable not set, and with the variable set to the empty string.
\<close>

theorem missing_key_fails_without_network_witness:
  "sendChatMessage (sample_env None (json_response 200 (js ''OK'') (JObj []))) (js ''hello'')
      None None None None =
     (Inl (ChatApi
            \<lparr>message =
               js ''API anahtar'' @ [305] @ js '' bulunamad'' @ [305] @ js ''. L'' @ [252] @
               js ''tfen .env dosyas'' @ [305] @ js ''nda VITE_API_KEY de'' @ [287] @ js ''i'' @ [351] @
               js ''kenini ayarlay'' @ [305] @ js ''n.'',
             details = NoDetails\<rparr>), []) \<and>
   fetch_calls (snd (sendChatMessage (sample_env None (json_response 200 (js ''OK'') (JObj [])))
      (js ''hello'') None None None None)) = [] \<and>
   fst (sendChatMessage (sample_env (Some []) (json_response 200 (js ''OK'') (JObj []))) (js ''hello'')
      None None None None) =
     fst (sendChatMessage (sample_env None (json_response 200 (js ''OK'') (JObj []))) (js ''hello'')
      None None None None) \<and>
   snd (sendChatMessage (sample_env (Some []) (json_response 200 (js ''OK'') (JObj []))) (js ''hello'')
      None None None None) = []"
  using missing_key_fails_without_network
          [of "sample_env None (json_response 200 (js ''OK'') (JObj []))" "js ''hello''"
              None None None None]
        missing_key_fails_without_network
          [of "sample_env (Some []) (json_response 200 (js ''OK'') (JObj []))" "js ''hello''"
              None None None None]
  by (simp add: sample_env_def msg_missing_key_def)

text \<open>
  C6. With a credential, a call hands the transport exactly one request. Its body holds
  message, mode ("chat" unless given), sessionId ("user-session-1" unless given) and reset
  (false unless given), in this order; after them it holds the attachments, each with its
  name, mime and contentString as given and in the order given, when there is at least
  one, and it has no attachments field when the argument is absent or empty.
\<close>

theorem attachments_sent_only_when_not_empty:
  assumes "\<not> key_missing (API_KEY e)"
  shows "map body (fetch_calls (snd (sendChatMessage e msg md sid atts rs))) =
           [JObj ([(js ''message'', JStr msg),
                   (js ''mode'', JStr (case md of
                                         None \<Rightarrow> js ''chat''
                                       | Some Query \<Rightarrow> js ''query''
                                       | Some Chat \<Rightarrow> js ''chat'')),
                   (js ''sessionId'', JStr (case sid of None \<Rightarrow> js ''user-session-1'' | Some s \<Rightarrow> s)),
                   (js ''reset'', JBool (case rs of None \<Rightarrow> False | Some b \<Rightarrow> b))] @
                  (case atts of
                     None \<Rightarrow> []
                   | Some as \<Rightarrow>
                       if as = [] then []
                       else [(js ''attachments'',
                              JArr (map (\<lambda>a. JObj [(js ''name'', JStr (name a)),
                                                    (js ''mime'', JStr (mime a)),
                                                    (js ''contentString'', JStr (contentString a))])
                                      as))]))]"
proof -
  have "attachment_json = (\<lambda>a. JObj [(js ''name'', JStr (name a)), (js ''mime'', JStr (mime a)),
                                      (js ''contentString'', JStr (contentString a))])"
    by (rule ext) (simp add: attachment_json_def)
  with assms show ?thesis
    by (simp add: send_calls request_of_def build_request_def requestBody_def
          split: option.splits mode.splits)
qed

text \<open>
  The theorem with one attachment and the mode "query", and with an empty list of
  attachments and every default.
\<close>

theorem attachments_sent_only_when_not_empty_witness:
  "map body (fetch_calls (snd (sendChatMessage
       (sample_env (Some (js ''k'')) (json_response 200 (js ''OK'') (JObj [])))
       (js ''hello'') (Some Query) (Some (js ''s1''))
       (Some [\<lparr>name = js ''a.txt'', mime = js ''text/plain'',
               contentString = js ''data:text/plain;base64,aGk=''\<rparr>])
       (Some True)))) =
     [JObj [(js ''message'', JStr (js ''hello'')), (js ''mode'', JStr (js ''query'')),
            (js ''sessionId'', JStr (js ''s1'')), (js ''reset'', JBool True),
            (js ''attachments'',
             JArr [JObj [(js ''name'', JStr (js ''a.txt'')), (js ''mime'', JStr (js ''text/plain'')),
                         (js ''contentString'', JStr (js ''data:text/plain;base64,aGk=''))]])]] \<and>
   map body (fetch_calls (snd (sendChatMessage
       (sample_env (Some (js ''k'')) (json_response 200 (js ''OK'') (JObj [])))
       (js ''hello'') None None (Some []) None))) =
     [JObj [(js ''message'', JStr (js ''hello'')), (js ''mode'', JStr (js ''chat'')),
            (js ''sessionId'', JStr (js ''user-session-1'')), (js ''reset'', JBool False)]]"
  using attachments_sent_only_when_not_empty
          [of "sample_env (Some (js ''k'')) (json_response 200 (js ''OK'') (JObj []))"
              "js ''hello''" "Some Query" "Some (js ''s1'')"
              "Some [\<lparr>name = js ''a.txt'', mime = js ''text/plain'',
                      contentString = js ''data:text/plain;base64,aGk=''\<rparr>]"
              "Some True"]
        attachments_sent_only_when_not_empty
          [of "sample_env (Some (js ''k'')) (json_response 200 (js ''OK'') (JObj []))"
              "js ''hello''" None None "Some []" None]
  by (simp add: sample_env_def)

text \<open>
  The \<open>catch\<close> of lines 112 to 124, for every call: whatever leaves the call is a
  ChatApiError; one thrown inside the \<open>try\<close> leaves unchanged; a TypeError whose message
  contains "fetch", wherever in the \<open>try\<close> it was thrown, becomes the connectivity error with
  the TypeError as details; every other exception becomes the fallback error with the
  exception as details.
\<close>

lemma catch_handler_ChatApi: "\<exists>err. fst (catch_handler t) = ChatApi err"
  by (cases t) (simp_all add: catch_handler_def)

lemma try_transport_failure:
  "\<not> key_missing (API_KEY e) \<Longrightarrow> fetch e (request_of e msg md sid atts rs) = Inl x \<Longrightarrow>
   fst (sendChatMessage_try e msg md sid atts rs) = Inl (Native x)"
  by (simp add: sendChatMessage_try_def)

lemma try_json_failure:
  "\<not> key_missing (API_KEY e) \<Longrightarrow> fetch e (request_of e msg md sid atts rs) = Inr r \<Longrightarrow>
   ok r \<Longrightarrow> json_body r = Inl x \<Longrightarrow>
   fst (sendChatMessage_try e msg md sid atts rs) = Inl (Native x)"
  by (simp add: sendChatMessage_try_def ok_response_def Let_def)

lemma thrown_by_transport_or_parser:
  assumes "\<not> key_missing (API_KEY e)"
    and "fetch e (request_of e msg md sid atts rs) = Inl x \<or>
         (\<exists>r. fetch e (request_of e msg md sid atts rs) = Inr r \<and> ok r \<and> json_body r = Inl x)"
  shows "fst (sendChatMessage e msg md sid atts rs) =
           Inl (ChatApi \<lparr>message = (if is_TypeError x \<and> js_includes (error_text x) (js ''fetch'')
                                      then msg_network else msg_unexpected),
                         details = DCause x\<rparr>)"
proof -
  from assms have "fst (sendChatMessage_try e msg md sid atts rs) = Inl (Native x)"
    by (auto simp add: try_transport_failure try_json_failure)
  then show ?thesis by (simp add: send_from_try catch_handler_def)
qed

lemma catch_rewraps:
  "(\<forall>t. fst (sendChatMessage e msg md sid atts rs) = Inl t \<longrightarrow> (\<exists>err. t = ChatApi err)) \<and>
   (\<forall>err. fst (sendChatMessage_try e msg md sid atts rs) = Inl (ChatApi err) \<longrightarrow>
      fst (sendChatMessage e msg md sid atts rs) = Inl (ChatApi err)) \<and>
   (\<forall>m. fst (sendChatMessage_try e msg md sid atts rs) = Inl (Native (TypeError m)) \<and>
        js_includes m (js ''fetch'') \<longrightarrow>
      fst (sendChatMessage e msg md sid atts rs) =
        Inl (ChatApi \<lparr>message = msg_network, details = DCause (TypeError m)\<rparr>)) \<and>
   (\<forall>x. fst (sendChatMessage_try e msg md sid atts rs) = Inl (Native x) \<and>
        \<not> (is_TypeError x \<and> js_includes (error_text x) (js ''fetch'')) \<longrightarrow>
      fst (sendChatMessage e msg md sid atts rs) =
        Inl (ChatApi \<lparr>message = msg_unexpected, details = DCause x\<rparr>))"
proof -
  have a: "\<exists>err. t = ChatApi err" if "fst (sendChatMessage e msg md sid atts rs) = Inl t" for t
    using that catch_handler_ChatApi by (auto simp add: send_from_try split: sum.splits)
  have b: "fst (sendChatMessage e msg md sid atts rs) = Inl (ChatApi err)"
    if "fst (sendChatMessage_try e msg md sid atts rs) = Inl (ChatApi err)" for err
    using that by (simp add: send_from_try catch_handler_def)
  have c: "fst (sendChatMessage e msg md sid atts rs) =
        Inl (ChatApi \<lparr>message = msg_network, details = DCause (TypeError m)\<rparr>)"
    if "fst (sendChatMessage_try e msg md sid atts rs) = Inl (Native (TypeError m)) \<and>
        js_includes m (js ''fetch'')" for m
    using that by (simp add: send_from_try catch_handler_def)
  have d: "fst (sendChatMessage e msg md sid atts rs) =
        Inl (ChatApi \<lparr>message = msg_unexpected, details = DCause x\<rparr>)"
    if "fst (sendChatMessage_try e msg md sid atts rs) = Inl (Native x) \<and>
        \<not> (is_TypeError x \<and> js_includes (error_text x) (js ''fetch''))" for x
    using that by (auto simp add: send_from_try catch_handler_def)
  from a b c d show ?thesis by blast
qed

lemma msg_unexpected_not_network: "msg_unexpected \<noteq> msg_network"
  by (simp add: msg_unexpected_def msg_network_def js_def)

text \<open>
  C7, at the input where the code misses it. The transport rejects with the TypeError
  "Load failed", which is how WebKit reports a connection that could not be made. The
  comment of line 117 says that network errors are caught there, but the test of line 118
  looks for "fetch" in the message: the call throws the fallback error, not the
  connectivity error. The same transport with the message "Failed to fetch" gives the
  connectivity error.
\<close>

theorem load_failed_gets_fallback_message:
  "fst (sendChatMessage (sample_env (Some (js ''k'')) (Inl (TypeError (js ''Load failed''))))
          (js ''hello'') None None None None) =
     Inl (ChatApi
           \<lparr>message =
              js ''Beklenmeyen bir hata olu'' @ [351] @ js ''tu. L'' @ [252] @
              js ''tfen tekrar deneyin.'',
            details = DCause (TypeError (js ''Load failed''))\<rparr>) \<and>
   fst (sendChatMessage (sample_env (Some (js ''k'')) (Inl (TypeError (js ''Failed to fetch''))))
          (js ''hello'') None None None None) =
     Inl (ChatApi
           \<lparr>message =
              js ''A'' @ [287] @ js '' ba'' @ [287] @ js ''lant'' @ [305] @ js '' hatas'' @ [305] @
              js ''. '' @ [304] @ js ''nternet ba'' @ [287] @ js ''lant'' @ [305] @ js ''n'' @ [305] @
              js ''z'' @ [305] @ js '' kontrol edin ve tekrar deneyin.'',
            details = DCause (TypeError (js ''Failed to fetch''))\<rparr>) \<and>
   msg_unexpected \<noteq> msg_network"
proof -
  have a: "\<not> js_includes (js ''Load failed'') (js ''fetch'')"
    by (simp add: js_def)
  have b: "js_includes (js ''Failed to fetch'') (js ''fetch'')"
    by (simp add: js_def)
  have "fst (sendChatMessage (sample_env (Some (js ''k'')) (Inl (TypeError (js ''Load failed''))))
          (js ''hello'') None None None None) =
     Inl (ChatApi \<lparr>message = msg_unexpected, details = DCause (TypeError (js ''Load failed''))\<rparr>)"
    "fst (sendChatMessage (sample_env (Some (js ''k'')) (Inl (TypeError (js ''Failed to fetch''))))
          (js ''hello'') None None None None) =
     Inl (ChatApi \<lparr>message = msg_network, details = DCause (TypeError (js ''Failed to fetch''))\<rparr>)"
    using a b
    by (simp_all add: sendChatMessage_def sendChatMessage_try_def sample_env_def
          constant_transport_def catch_handler_def)
  then show ?thesis
    by (simp add: msg_unexpected_not_network) (simp add: msg_unexpected_def msg_network_def)
qed

section \<open>Properties of the speech controller\<close>

text \<open>
  C9. In every state \<open>resetTranscript\<close> empties the transcript, the final buffer and the last
  dispatched text and clears the in-flight flag; it writes one line to the console and
  changes nothing else: the engine is neither stopped nor let go, and the listening flag,
  the voice-mode flag, the callback and the timers stay as they were.
\<close>

theorem resetTranscript_frame:
  "transcript (resetTranscript w) = [] \<and>
   finalTranscriptRef (resetTranscript w) = [] \<and>
   lastProcessedTextRef (resetTranscript w) = [] \<and>
   isProcessingRef (resetTranscript w) = False \<and>
   isListening (resetTranscript w) = isListening w \<and>
   isSupported (resetTranscript w) = isSupported w \<and>
   recognitionRef (resetTranscript w) = recognitionRef w \<and>
   isVoiceModeRef (resetTranscript w) = isVoiceModeRef w \<and>
   onSpeechEndRef (resetTranscript w) = onSpeechEndRef w \<and>
   timeoutRef (resetTranscript w) = timeoutRef w \<and>
   timers (resetTranscript w) = timers w \<and>
   last_timer (resetTranscript w) = last_timer w \<and>
   last_engine (resetTranscript w) = last_engine w \<and>
   effects (resetTranscript w) = effects w @ [Log LogResetting]"
  by (simp add: resetTranscript_def emit_def)

lemma isSupported_cleanup [simp]: "isSupported (cleanup w) = isSupported w"
  by (simp add: cleanup_def clear_timeout_def emit_def Let_def split: option.splits)

lemma isSupported_check [simp]: "isSupported (snd (startListening_check po w)) = isSupported w"
  by (simp add: startListening_check_def emit_def split_beta)

lemma isSupported_resume [simp]:
  "isSupported (snd (startListening_resume p eo cb b w)) = isSupported w"
  by (simp add: startListening_resume_def emit_def Let_def split: option.splits)

lemma isSupported_onresult [simp]: "isSupported (onresult r ev w) = isSupported w"
  by (simp add: onresult_def set_timeout_def emit_def Let_def split_beta)

lemma isSupported_timer_fires [simp]: "isSupported (timer_fires po h w) = isSupported w"
  by (simp add: timer_fires_def clear_timeout_def emit_def Let_def
        split: option.splits task.splits)

lemma isSupported_step:
  "\<not> has_recognition p \<Longrightarrow> isSupported (step p ev w) = isSupported w"
  by (cases ev)
     (simp_all add: mount_def stopListening_def resetTranscript_def restartListening_def
        onstart_def onend_def onerror_def set_timeout_def clear_timeout_def emit_def Let_def
        split_beta split: option.splits)

lemma isSupported_run:
  "\<not> has_recognition p \<Longrightarrow> isSupported (run p evs w) = isSupported w"
  by (induction evs arbitrary: w) (simp_all add: isSupported_step)

text \<open>
  C10. While \<open>isSupported\<close> is false, \<open>startListening\<close> returns at once and leaves the whole
  state as it was: no permission query, no microphone probe, no alert, no engine. On a
  platform without a recognition engine \<open>isSupported\<close> is false after every run of events,
  so \<open>startListening\<close> never does anything there.
\<close>

theorem startListening_unsupported_noop:
  "(\<not> isSupported w \<longrightarrow> startListening p po eo cb w = (None, w)) \<and>
   (\<not> has_recognition p \<longrightarrow>
      \<not> isSupported (run p evs hook_init) \<and>
      startListening p po eo cb (run p evs hook_init) = (None, run p evs hook_init))"
proof -
  have a: "\<not> isSupported v \<Longrightarrow> startListening p po eo cb v = (None, v)" for v
    by (simp add: startListening_def startListening_check_def)
  have b: "\<not> has_recognition p \<Longrightarrow> \<not> isSupported (run p evs hook_init)"
    by (simp add: isSupported_run hook_init_def)
  from a b show ?thesis by blast
qed

text \<open>
  The theorem on a platform without an engine, after the mount effect.
\<close>

theorem startListening_unsupported_noop_witness:
  "startListening bare_platform mic_granted engine_fine (Some 7)
     (run bare_platform [Mount] hook_init) = (None, run bare_platform [Mount] hook_init) \<and>
   run bare_platform [Mount] hook_init = hook_init"
  using startListening_unsupported_noop [of hook_init bare_platform mic_granted engine_fine "Some 7" "[Mount]"]
  by (simp add: bare_platform_def mount_def)

text \<open>
  C8, as amended. When \<open>recognition.start()\<close> throws inside \<open>startListening\<close>, the
  exception is caught and logged, the promise resolves, and the controller is left with the
  listening flag false, no engine and no dispatch in flight.
\<close>

theorem start_failure_caught:
  assumes "isSupported w"
    and "fst (checkMicrophonePermission po)"
    and "has_recognition p"
    and "construct_error eo = None"
    and "start_error eo = Some err"
  shows "fst (startListening p po eo cb w) = None \<and>
         isListening (snd (startListening p po eo cb w)) = False \<and>
         recognitionRef (snd (startListening p po eo cb w)) = None \<and>
         isProcessingRef (snd (startListening p po eo cb w)) = False \<and>
         last (effects (snd (startListening p po eo cb w))) = Log LogStartError"
  using assms
  by (simp add: startListening_def startListening_check_def startListening_resume_def
        emit_def Let_def split_beta)

text \<open>
  The theorem at a mounted hook whose engine refuses to start.
\<close>

theorem start_failure_caught_witness:
  "fst (startListening sample_platform mic_granted engine_start_fails (Some 7)
          (mount sample_platform hook_init)) = None \<and>
   isListening (snd (startListening sample_platform mic_granted engine_start_fails (Some 7)
          (mount sample_platform hook_init))) = False \<and>
   recognitionRef (snd (startListening sample_platform mic_granted engine_start_fails (Some 7)
          (mount sample_platform hook_init))) = None"
  using start_failure_caught
          [of "mount sample_platform hook_init" mic_granted sample_platform engine_start_fails
              "OtherError (js ''InvalidStateError'') (js ''recognition has already started'')" "Some 7"]
  by (simp add: sample_platform_def mount_def hook_init_def mic_granted_def
        engine_start_fails_def checkMicrophonePermission_def)

text \<open>
  C8 as stated fails: the constructor is called outside the \<open>try\<close>, so when it throws the
  promise of \<open>startListening\<close> rejects with that exception.
\<close>

theorem constructor_failure_propagates_counterexample:
  "fst (startListening sample_platform mic_granted engine_construct_fails (Some 7)
          (mount sample_platform hook_init)) =
     Some (TypeError (js ''Illegal constructor''))"
  by (simp add: startListening_def startListening_check_def startListening_resume_def
        sample_platform_def mount_def hook_init_def mic_granted_def engine_construct_fails_def
        checkMicrophonePermission_def emit_def cleanup_def Let_def)


lemma invocations_append [simp]:
  "invocations (xs @ ys) = invocations xs @ invocations ys"
  by (induction xs rule: invocations.induct) simp_all



lemma onresult_invocations [simp]:
  "invocations (effects (onresult r ev w)) = invocations (effects w)"
  by (simp add: onresult_def set_timeout_def emit_def Let_def split_beta)







lemma final_text_final_event [simp]: "final_text (final_event t) = t"
  by (simp add: final_text_def final_event_def)





lemma restart_inv_init: "restart_inv hook_init"
  by (simp add: restart_inv_def hook_init_def)

lemma restart_inv_emit [simp]: "restart_inv (emit es w) = restart_inv w"
  by (simp add: restart_inv_def emit_def)

lemma restart_timers_emit [simp]: "restart_timers (emit es w) = restart_timers w"
  by (simp add: restart_timers_def emit_def)

lemma restart_inv_no_ref:
  "restart_inv w \<Longrightarrow> timeoutRef w = None \<or> timeoutRef w = Some 0 \<Longrightarrow> restart_timers w = []"
  by (auto simp add: restart_inv_def restart_timers_def list_all_iff filter_empty_conv)

lemma restart_timers_clear:
  "restart_inv w \<Longrightarrow> timeoutRef w = Some h \<Longrightarrow> restart_timers (clear_timeout h w) = []"
  by (auto simp add: restart_inv_def restart_timers_def clear_timeout_def list_all_iff
        filter_empty_conv)

lemma restart_inv_from_empty:
  "list_all (\<lambda>x. fst x \<noteq> 0) (timers w) \<Longrightarrow> restart_timers w = [] \<Longrightarrow> restart_inv w"
  by (auto simp add: restart_inv_def restart_timers_def list_all_iff filter_empty_conv)

lemma restart_inv_nonzero: "restart_inv w \<Longrightarrow> list_all (\<lambda>x. fst x \<noteq> 0) (timers w)"
  by (auto simp add: restart_inv_def list_all_iff)

lemma cleanup_restart:
  assumes "restart_inv w"
  shows "restart_timers (cleanup w) = [] \<and> restart_inv (cleanup w)"
proof -
  have nz: "list_all (\<lambda>x. fst x \<noteq> 0) (timers (cleanup w))"
    using restart_inv_nonzero [OF assms]
    by (auto simp add: cleanup_def clear_timeout_def emit_def Let_def list_all_iff
          split: option.splits)
  have e: "restart_timers (cleanup w) = []"
  proof (cases "timeoutRef w")
    case None
    with assms have "restart_timers w = []" by (simp add: restart_inv_no_ref)
    with None show ?thesis
      by (simp add: cleanup_def restart_timers_def emit_def Let_def split: option.splits)
  next
    case (Some h)
    show ?thesis
    proof (cases "h = 0")
      case True
      with Some assms have "restart_timers w = []" by (simp add: restart_inv_no_ref)
      with Some True show ?thesis
        by (simp add: cleanup_def restart_timers_def emit_def Let_def split: option.splits)
    next
      case False
      from assms Some have "restart_timers (clear_timeout h w) = []"
        by (rule restart_timers_clear)
      with Some False show ?thesis
        by (simp add: cleanup_def restart_timers_def emit_def Let_def clear_timeout_def
              split: option.splits)
    qed
  qed
  from nz e show ?thesis by (simp add: restart_inv_from_empty)
qed


lemma restart_inv_cong:
  "timers v = timers w \<Longrightarrow> timeoutRef v = timeoutRef w \<Longrightarrow> restart_inv v = restart_inv w"
  by (simp add: restart_inv_def)

lemma restart_timers_cong: "timers v = timers w \<Longrightarrow> restart_timers v = restart_timers w"
  by (simp add: restart_timers_def)

lemma resume_timers:
  "timers (snd (startListening_resume p eo cb b w)) =
     (if b \<and> has_recognition p then timers (cleanup w) else timers w)"
  by (simp add: startListening_resume_def emit_def Let_def split: option.splits)

lemma resume_timeoutRef:
  "timeoutRef (snd (startListening_resume p eo cb b w)) =
     (if b \<and> has_recognition p then timeoutRef (cleanup w) else timeoutRef w)"
  by (simp add: startListening_resume_def emit_def Let_def split: option.splits)

lemma resume_restart_inv:
  assumes "restart_inv w"
  shows "restart_inv (snd (startListening_resume p eo cb b w))"
proof (cases "b \<and> has_recognition p")
  case True
  then have "restart_inv (snd (startListening_resume p eo cb b w)) = restart_inv (cleanup w)"
    by (intro restart_inv_cong) (simp_all add: resume_timers resume_timeoutRef)
  with assms show ?thesis by (simp add: cleanup_restart)
next
  case False
  then have "restart_inv (snd (startListening_resume p eo cb b w)) = restart_inv w"
    by (intro restart_inv_cong) (auto simp add: resume_timers resume_timeoutRef)
  with assms show ?thesis by simp
qed

lemma stop_restart:
  assumes "restart_inv w"
  shows "restart_timers (stopListening w) = [] \<and> restart_inv (stopListening w)"
proof -
  have "restart_inv ((emit [Log LogStopping] w)
                \<lparr>isVoiceModeRef := False, onSpeechEndRef := None, isProcessingRef := False,
                 lastProcessedTextRef := []\<rparr>)"
    using assms by (simp add: restart_inv_def emit_def)
  then show ?thesis unfolding stopListening_def by (rule cleanup_restart)
qed

lemma restartListening_inv:
  assumes "restart_inv w"
  shows "restart_inv (restartListening cb w)"
proof -
  have nz: "list_all (\<lambda>x. fst x \<noteq> 0) (timers w)"
    using assms by (rule restart_inv_nonzero)
  have cleared: "restart_timers (case timeoutRef w of None \<Rightarrow> w
                   | Some h \<Rightarrow> if h \<noteq> 0 then clear_timeout h w else w) = []"
    using assms restart_inv_no_ref [of w] restart_timers_clear [of w]
    by (auto split: option.splits)
  have "set (timers (case timeoutRef w of None \<Rightarrow> w
                   | Some h \<Rightarrow> if h \<noteq> 0 then clear_timeout h w else w)) \<subseteq> set (timers w)"
    by (auto simp add: clear_timeout_def split: option.splits)
  with nz cleared show ?thesis
    by (auto simp add: restartListening_def restart_inv_def restart_timers_def set_timeout_def
          emit_def Let_def clear_timeout_def list_all_iff filter_empty_conv
          split: option.splits if_splits)
qed

lemma onresult_restart_inv: "restart_inv w \<Longrightarrow> restart_inv (onresult r ev w)"
  by (simp add: restart_inv_def onresult_def set_timeout_def emit_def Let_def split_beta)

lemma timer_fires_restart_inv: "restart_inv w \<Longrightarrow> restart_inv (timer_fires po h w)"
  by (auto simp add: restart_inv_def timer_fires_def clear_timeout_def emit_def
        startListening_check_def Let_def split_beta list_all_iff
        split: option.splits task.splits)

lemma step_restart_inv: "restart_inv w \<Longrightarrow> restart_inv (step p ev w)"
proof (cases ev)
  case (StartResume eo cb b)
  assume "restart_inv w"
  with StartResume show ?thesis by (simp add: resume_restart_inv)
next
  case Stop
  assume "restart_inv w"
  with Stop show ?thesis by (simp add: stop_restart)
next
  case (RestartCall cb)
  assume "restart_inv w"
  with RestartCall show ?thesis by (simp add: restartListening_inv)
next
  case (OnResult r e)
  assume "restart_inv w"
  with OnResult show ?thesis by (simp add: onresult_restart_inv)
next
  case (TimerFires po h)
  assume "restart_inv w"
  with TimerFires show ?thesis by (simp add: timer_fires_restart_inv)
qed (simp_all add: restart_inv_def mount_def startListening_check_def resetTranscript_def
       onstart_def onend_def onerror_def emit_def Let_def split_beta)

lemma run_restart_inv: "restart_inv w \<Longrightarrow> restart_inv (run p evs w)"
  by (induction evs arbitrary: w) (simp_all add: step_restart_inv)

lemma no_restart_pending:
  "restart_timers w = [] \<Longrightarrow> map_of (timers w) h \<noteq> Some (Restart c)"
proof
  assume e: "restart_timers w = []" and m: "map_of (timers w) h = Some (Restart c)"
  from m have "(h, Restart c) \<in> set (timers w)" by (rule map_of_SomeD)
  with e show False by (auto simp add: restart_timers_def filter_empty_conv)
qed

text \<open>
  C4, as amended. After any run of events from the initial state, \<open>stopListening\<close> leaves
  no restart timer pending, so none can come due; so does a \<open>startListening\<close> that has
  passed its permission check on a platform with an engine. A restart timer that comes due
  while voice mode is off does nothing.
\<close>

theorem restart_timer_cancelled:
  "restart_timers (stopListening (run p evs hook_init)) = [] \<and>
   (\<forall>h c. map_of (timers (stopListening (run p evs hook_init))) h \<noteq> Some (Restart c)) \<and>
   (has_recognition p \<longrightarrow>
      restart_timers (snd (startListening_resume p eo cb True (run p evs hook_init))) = []) \<and>
   (\<forall>h c. \<not> isVoiceModeRef w \<and> map_of (timers w) h = Some (Restart c) \<longrightarrow>
      timer_fires po h w = clear_timeout h w)"
proof -
  have inv: "restart_inv (run p evs hook_init)"
    by (simp add: run_restart_inv restart_inv_init)
  then have a: "restart_timers (stopListening (run p evs hook_init)) = []"
    by (simp add: stop_restart)
  then have b: "map_of (timers (stopListening (run p evs hook_init))) h \<noteq> Some (Restart c)" for h c
    by (rule no_restart_pending)
  have c: "restart_timers (snd (startListening_resume p eo cb True (run p evs hook_init))) = []"
    if "has_recognition p"
  proof -
    from that have "restart_timers (snd (startListening_resume p eo cb True (run p evs hook_init))) =
                    restart_timers (cleanup (run p evs hook_init))"
      by (intro restart_timers_cong) (simp add: resume_timers)
    with cleanup_restart [OF inv] show ?thesis by simp
  qed
  have d: "timer_fires po h w = clear_timeout h w"
    if "\<not> isVoiceModeRef w \<and> map_of (timers w) h = Some (Restart c)" for h c
    using that by (simp add: timer_fires_def clear_timeout_def)
  from a b c d show ?thesis by blast
qed

text \<open>
  The theorem after \<open>restartListening\<close> has set a restart timer in a voice session.
\<close>

theorem restart_timer_cancelled_witness:
  "restart_timers (run sample_platform
      [Mount, StartCheck mic_granted, StartResume engine_fine (Some 7) True, RestartCall 7]
      hook_init) = [(1, Restart 7)] \<and>
   restart_timers (stopListening (run sample_platform
      [Mount, StartCheck mic_granted, StartResume engine_fine (Some 7) True, RestartCall 7]
      hook_init)) = [] \<and>
   restart_timers (snd (startListening_resume sample_platform engine_fine (Some 7) True
      (run sample_platform
        [Mount, StartCheck mic_granted, StartResume engine_fine (Some 7) True, RestartCall 7]
        hook_init))) = []"
proof -
  have "restart_timers (run sample_platform
      [Mount, StartCheck mic_granted, StartResume engine_fine (Some 7) True, RestartCall 7]
      hook_init) = [(1, Restart 7)]"
    by (simp add: sample_platform_def mic_granted_def engine_fine_def hook_init_def mount_def
        startListening_check_def startListening_resume_def checkMicrophonePermission_def
        cleanup_def emit_def restartListening_def set_timeout_def restart_timers_def Let_def)
  then show ?thesis
    using restart_timer_cancelled
            [of sample_platform
                "[Mount, StartCheck mic_granted, StartResume engine_fine (Some 7) True, RestartCall 7]"
                engine_fine "Some 7" hook_init mic_granted]
    by (simp add: sample_platform_def)
qed

text \<open>
  C4 as stated fails for the dispatch timer, whose handle the code does not keep: after
  \<open>stopListening\<close> the callback reference is cleared and the timer is still pending, and when
  it comes due the callback is called.
\<close>

theorem dispatch_timer_survives_stop_counterexample:
  "invocations (effects (run sample_platform
      [Mount, StartCheck mic_granted, StartResume engine_fine (Some 7) True, OnStart,
       OnResult 1 (final_event (js ''hello'')), Stop] hook_init)) = [] \<and>
   onSpeechEndRef (run sample_platform
      [Mount, StartCheck mic_granted, StartResume engine_fine (Some 7) True, OnStart,
       OnResult 1 (final_event (js ''hello'')), Stop] hook_init) = None \<and>
   timers (run sample_platform
      [Mount, StartCheck mic_granted, StartResume engine_fine (Some 7) True, OnStart,
       OnResult 1 (final_event (js ''hello'')), Stop] hook_init) = [(1, Dispatch 7 (js ''hello''))] \<and>
   invocations (effects (run sample_platform
      [Mount, StartCheck mic_granted, StartResume engine_fine (Some 7) True, OnStart,
       OnResult 1 (final_event (js ''hello'')), Stop, TimerFires mic_granted 1] hook_init)) =
     [(7, js ''hello'')]"
  by (simp add: sample_platform_def mic_granted_def engine_fine_def hook_init_def mount_def
        startListening_check_def startListening_resume_def checkMicrophonePermission_def
        cleanup_def emit_def onstart_def onresult_def final_event_def set_timeout_def
        stopListening_def timer_fires_def clear_timeout_def Let_def trim_def is_ws_def js_def)

end
